theory Spec2Isabelle
  imports Complex_Main
begin

section \<open>The middle-click scroll controller (middleScroll.ts)\<close>

text \<open>
  A shallow embedding of \<^verbatim>\<open>MiddleScrollController\<close>. The controller's private fields and the
  parts of its surroundings that its methods read or write (the editor's scroll offsets,
  the body element's attribute and class, the window's mousemove listener and its list of
  animation frame callbacks) are the fields of one record, and each method is a function
  from the record to the record.

  A JavaScript \<^verbatim>\<open>number\<close> is modelled as a real number: the arithmetic of the source
  (subtraction, addition, division by 2, rounding) is exact on pixel coordinates, and NaN and
  the infinities are not values of the model.
\<close>

type_synonym number = real

text \<open>
  \<^verbatim>\<open>Math.round\<close>: the integer nearest to the argument, a tie going to the larger one
  (ECMAScript: "if two integers are equally close, the result is the one closer to
  +\<infinity>"). The result \<^verbatim>\<open>-0\<close> is the number 0 here; the source only compares it
  with 0 and adds it, where both behave alike.
\<close>

definition Math_round :: "number \<Rightarrow> number" where
  "Math_round v = of_int \<lfloor>v + 1 / 2\<rfloor>"

subsection \<open>Data\<close>

text \<open>The fields of \<^verbatim>\<open>IMouseEvent\<close> and of the DOM's \<^verbatim>\<open>MouseEvent\<close> that the source reads.\<close>

record IMouseEvent =
  posx :: number
  posy :: number
  middleButton :: bool

record MouseEvent =
  pageX :: number
  pageY :: number

text \<open>
  The indicator element \<^verbatim>\<open>dot\<close>: its \<^verbatim>\<open>style.left\<close> and \<^verbatim>\<open>style.top\<close> (in px, unset at
  first) and whether its class list holds \<^verbatim>\<open>hidden\<close>.
\<close>

record HTMLDivElement =
  style_left :: "number option"
  style_top :: "number option"
  hidden :: bool

text \<open>
  The fields of the controller come first, under the source's names (\<^verbatim>\<open>this.x\<close> and
  \<^verbatim>\<open>this.y\<close> are \<open>this_x\<close> and \<open>this_y\<close>); \<^verbatim>\<open>null\<close> is \<open>None\<close>. Then the surroundings:
  \<^item> \<open>editor_scrollTop\<close>, \<open>editor_scrollLeft\<close>: the editor's scroll offsets;
  \<^item> \<open>data_scroll_direction\<close>: the body's attribute \<^verbatim>\<open>data-scroll-direction\<close>
    (\<open>None\<close> when the attribute is absent);
  \<^item> \<open>body_class\<close>: whether the body's class list holds
    \<^verbatim>\<open>scroll-editor-on-middle-click-editor\<close>;
  \<^item> \<open>mousemove_listener\<close>: whether \<^verbatim>\<open>setCurrent\<close> is registered on the window;
  \<^item> \<open>frame_callbacks\<close>: the handles of the window's pending animation frame callbacks
    (each one is \<^verbatim>\<open>scrollPane\<close>), and \<open>next_handle\<close>, the next handle it gives out;
  \<^item> \<open>stopPropagation_calls\<close>: how often \<^verbatim>\<open>e.stopPropagation()\<close> has been called;
  \<^item> \<open>disposed\<close>: whether \<^verbatim>\<open>dispose()\<close> has run.
  \<^verbatim>\<open>getWindow()\<close> is taken to return the same window at every call.
\<close>

record controller =
  moving :: bool
  scrolling :: bool
  currentX :: "number option"
  currentY :: "number option"
  this_x :: "number option"
  this_y :: "number option"
  animationFrameId :: "nat option"
  dot :: "HTMLDivElement option"
  editor_scrollTop :: number
  editor_scrollLeft :: number
  data_scroll_direction :: "string option"
  body_class :: bool
  mousemove_listener :: bool
  frame_callbacks :: "nat list"
  next_handle :: nat
  stopPropagation_calls :: nat
  disposed :: bool

text \<open>
  \<^verbatim>\<open>private threshold: number = 5\<close> and \<^verbatim>\<open>private speed: number = 2\<close>: no method assigns
  them.
\<close>

definition threshold :: number where
  "threshold = 5"

definition speed :: number where
  "speed = 2"

text \<open>The state after the constructor, with the editor scrolled to \<open>(top, left)\<close>.\<close>

definition initial :: "number \<Rightarrow> number \<Rightarrow> controller" where
  "initial top0 left0 =
     \<lparr> moving = False, scrolling = False,
       currentX = None, currentY = None, this_x = None, this_y = None,
       animationFrameId = None, dot = None,
       editor_scrollTop = top0, editor_scrollLeft = left0,
       data_scroll_direction = None, body_class = False,
       mousemove_listener = False, frame_callbacks = [], next_handle = 1,
       stopPropagation_calls = 0, disposed = False \<rparr>"

subsection \<open>The surroundings\<close>

text \<open>
  Modelled from the spec: the editor (\<^verbatim>\<open>ICodeEditor\<close>) is not part of the source file. The
  spec describes it as a viewport "capable of reporting/setting horizontal and vertical
  scroll offset": \<^verbatim>\<open>getScrollTop\<close> and \<^verbatim>\<open>getScrollLeft\<close> report the offsets,
  \<^verbatim>\<open>setScrollTop\<close> and \<^verbatim>\<open>setScrollLeft\<close> set them to the value given.
\<close>

definition getScrollTop :: "controller \<Rightarrow> number" where
  "getScrollTop s = editor_scrollTop s"

definition getScrollLeft :: "controller \<Rightarrow> number" where
  "getScrollLeft s = editor_scrollLeft s"

definition setScrollTop :: "number \<Rightarrow> controller \<Rightarrow> controller" where
  "setScrollTop v s = s\<lparr>editor_scrollTop := v\<rparr>"

definition setScrollLeft :: "number \<Rightarrow> controller \<Rightarrow> controller" where
  "setScrollLeft v s = s\<lparr>editor_scrollLeft := v\<rparr>"

text \<open>
  The window's \<^verbatim>\<open>requestAnimationFrame\<close> appends a callback under a fresh handle and
  returns the handle; \<^verbatim>\<open>cancelAnimationFrame\<close> removes the callback of that handle.
\<close>

definition requestAnimationFrame :: "controller \<Rightarrow> nat \<times> controller" where
  "requestAnimationFrame s =
     (next_handle s,
      s\<lparr>frame_callbacks := frame_callbacks s @ [next_handle s],
        next_handle := next_handle s + 1\<rparr>)"

definition cancelAnimationFrame :: "nat \<Rightarrow> controller \<Rightarrow> controller" where
  "cancelAnimationFrame h s = s\<lparr>frame_callbacks := removeAll h (frame_callbacks s)\<rparr>"

definition stopPropagation :: "controller \<Rightarrow> controller" where
  "stopPropagation s = s\<lparr>stopPropagation_calls := stopPropagation_calls s + 1\<rparr>"

subsection \<open>The methods\<close>

text \<open>
  Lines 65-70 and 72-77 of \<^verbatim>\<open>scrollPane\<close> are the same computation, once on \<^verbatim>\<open>diffTop\<close>
  and once on \<^verbatim>\<open>diffLeft\<close>.
\<close>

definition move :: "number \<Rightarrow> number" where
  "move diff =
     (if diff > threshold then Math_round ((diff - threshold) / speed)
      else if diff < - threshold then Math_round ((diff + threshold) / speed)
      else 0)"

text \<open>Lines 79-81: the direction string.\<close>

definition direction_of :: "number \<Rightarrow> number \<Rightarrow> string" where
  "direction_of moveTop moveLeft =
     (if moveTop < 0 then ''n'' else (if moveTop > 0 then ''s'' else '''')) @
     (if moveLeft < 0 then ''w'' else (if moveLeft > 0 then ''e'' else ''''))"

definition scrollPane :: "controller \<Rightarrow> controller" where
  "scrollPane s =
     (if currentX s = None \<or> currentY s = None \<or> this_x s = None \<or> this_y s = None then s
      else
        let top = getScrollTop s;
            left = getScrollLeft s;
            diffTop = the (currentY s) - the (this_y s);
            moveTop = move diffTop;
            diffLeft = the (currentX s) - the (this_x s);
            moveLeft = move diffLeft;
            direction = direction_of moveTop moveLeft;
            s1 = (if direction \<noteq> '''' then s\<lparr>moving := True\<rparr> else s);
            s2 = s1\<lparr>data_scroll_direction := Some direction\<rparr>;
            targetTop = top + moveTop;
            s3 = setScrollTop targetTop s2;
            targetLeft = left + moveLeft;
            s4 = setScrollLeft targetLeft s3;
            (h, s5) = requestAnimationFrame s4
        in s5\<lparr>animationFrameId := Some h\<rparr>)"

definition stopScroll :: "controller \<Rightarrow> controller" where
  "stopScroll s =
     (let s1 = s\<lparr>scrolling := False, moving := False, mousemove_listener := False\<rparr>;
          s2 = (case animationFrameId s1 of
                  Some h \<Rightarrow> (cancelAnimationFrame h s1)\<lparr>animationFrameId := None\<rparr>
                | None \<Rightarrow> s1);
          s3 = (case dot s2 of
                  Some d \<Rightarrow> s2\<lparr>dot := Some (d\<lparr>hidden := True\<rparr>)\<rparr>
                | None \<Rightarrow> s2)
      in s3\<lparr>data_scroll_direction := None, body_class := False\<rparr>)"

definition startScroll :: "IMouseEvent \<Rightarrow> controller \<Rightarrow> controller" where
  "startScroll e s =
     (let s0 = (if scrolling s then stopScroll s else s);
          s1 = s0\<lparr>scrolling := True, moving := False, body_class := True\<rparr>;
          s2 = (case dot s1 of
                  Some d \<Rightarrow>
                    s1\<lparr>dot := Some (d\<lparr>style_left := Some (posx e),
                                      style_top := Some (posy e), hidden := False\<rparr>)\<rparr>
                | None \<Rightarrow> s1);
          s3 = s2\<lparr>this_x := Some (posx e), this_y := Some (posy e),
                  currentX := Some (posx e), currentY := Some (posy e),
                  mousemove_listener := True\<rparr>
      in scrollPane s3)"

definition setCurrent :: "MouseEvent \<Rightarrow> controller \<Rightarrow> controller" where
  "setCurrent e s = s\<lparr>currentX := Some (pageX e), currentY := Some (pageY e)\<rparr>"

text \<open>
  \<^verbatim>\<open>createDot\<close> makes the element with the class \<^verbatim>\<open>hidden\<close> and appends it to the body; its
  removal is what it adds to \<^verbatim>\<open>disposables\<close> (see \<open>dispose\<close> below). The call of
  \<^verbatim>\<open>console.log\<close> has no part in the model.
\<close>

definition createDot :: "controller \<Rightarrow> controller" where
  "createDot s = s\<lparr>dot := Some \<lparr>style_left = None, style_top = None, hidden = True\<rparr>\<rparr>"

definition windowMouseDown :: "IMouseEvent \<Rightarrow> controller \<Rightarrow> controller" where
  "windowMouseDown e s =
     (if scrolling s then
        stopScroll (if middleButton e then stopPropagation s else s)
      else
        let s1 = (if dot s = None then createDot s else s)
        in if middleButton e then startScroll e (stopPropagation s1) else s1)"

definition windowMouseUp :: "controller \<Rightarrow> controller" where
  "windowMouseUp s = (if moving s then stopScroll s else s)"

text \<open>
  \<^verbatim>\<open>dispose()\<close> disposes the store \<^verbatim>\<open>disposables\<close>, which runs \<^verbatim>\<open>stopScroll\<close> (added by
  the constructor) and then removes the dot (added by \<^verbatim>\<open>createDot\<close>, if it ran), and calls
  \<^verbatim>\<open>super.dispose()\<close>.
\<close>

text \<open>
  Modelled from the spec: the base class \<^verbatim>\<open>Disposable\<close> and \<^verbatim>\<open>DisposableStore\<close> are not
  part of the source file. By the spec disposal guarantees "listeners removed", here the
  editor's mouse listeners that the constructor registered with \<^verbatim>\<open>_register\<close>: the flag
  \<open>disposed\<close> records it, a disposed controller receives no mouse event, and a second
  disposal does nothing.
\<close>

definition dispose :: "controller \<Rightarrow> controller" where
  "dispose s =
     (if disposed s then s
      else (stopScroll s)\<lparr>dot := None, disposed := True\<rparr>)"

subsection \<open>Events\<close>

text \<open>
  What the host delivers to the controller: the editor's mouse-down and mouse-up events
  (until disposal), the window's mousemove events (while \<^verbatim>\<open>setCurrent\<close> is registered),
  the run of a pending animation frame callback (the window removes the callback from its
  list and calls \<^verbatim>\<open>scrollPane\<close>), and disposal.
\<close>

datatype event =
    MouseDown IMouseEvent
  | MouseUp
  | MouseMove MouseEvent
  | AnimationFrame nat
  | Dispose

fun deliver :: "event \<Rightarrow> controller \<Rightarrow> controller" where
  "deliver (MouseDown e) s = (if disposed s then s else windowMouseDown e s)"
| "deliver MouseUp s = (if disposed s then s else windowMouseUp s)"
| "deliver (MouseMove e) s = (if mousemove_listener s then setCurrent e s else s)"
| "deliver (AnimationFrame h) s =
     (if h \<in> set (frame_callbacks s)
      then scrollPane (s\<lparr>frame_callbacks := removeAll h (frame_callbacks s)\<rparr>)
      else s)"
| "deliver Dispose s = dispose s"

fun run :: "event list \<Rightarrow> controller \<Rightarrow> controller" where
  "run [] s = s"
| "run (ev # evs) s = run evs (deliver ev s)"

subsection \<open>Example inputs\<close>

text \<open>A press of the middle button at \<open>(100, 100)\<close>, and the pointer moved to \<open>(px, py)\<close> afterwards.\<close>

definition middle_press :: IMouseEvent where
  "middle_press = \<lparr>posx = 100, posy = 100, middleButton = True\<rparr>"

definition pointer_at :: "number \<Rightarrow> number \<Rightarrow> MouseEvent" where
  "pointer_at px py = \<lparr>pageX = px, pageY = py\<rparr>"

text \<open>
  The session after that press and that move, the editor scrolled to \<open>(40, 10)\<close> before: the
  first frame callback, of handle 1, is pending.
\<close>

definition session_at :: "number \<Rightarrow> number \<Rightarrow> controller" where
  "session_at px py = run [MouseDown middle_press, MouseMove (pointer_at px py)] (initial 40 10)"

text \<open>
  The session with the pointer at \<open>(100, 131)\<close> after its first frame tick: the tick has
  scrolled down by 13 and set \<open>moving\<close>, and the frame callback of handle 2 is pending.
\<close>

definition moved_session :: controller where
  "moved_session =
     run [MouseDown middle_press, MouseMove (pointer_at 100 131), AnimationFrame 1]
       (initial 40 10)"

subsection \<open>What holds of every state that events lead to\<close>

text \<open>
  While scrolling, anchor and current position are set, the mousemove listener and the body
  class are in place, and the one pending frame callback is the one whose handle is stored.
  While idle, nothing is pending or registered, the direction attribute and the body class
  are absent, and the dot, if it exists, is hidden.
\<close>

definition session_inv :: "controller \<Rightarrow> bool" where
  "session_inv s \<longleftrightarrow>
     (if scrolling s then
        currentX s \<noteq> None \<and> currentY s \<noteq> None \<and> this_x s \<noteq> None \<and> this_y s \<noteq> None \<and>
        mousemove_listener s \<and> body_class s \<and> \<not> disposed s \<and>
        animationFrameId s \<noteq> None \<and> frame_callbacks s = [the (animationFrameId s)]
      else
        \<not> moving s \<and> animationFrameId s = None \<and> frame_callbacks s = [] \<and>
        \<not> mousemove_listener s \<and> \<not> body_class s \<and> data_scroll_direction s = None \<and>
        (case dot s of Some d \<Rightarrow> hidden d | None \<Rightarrow> True))"


text \<open>The part of this that is about the fields \<open>animationFrameId\<close> and \<open>moving\<close>.\<close>

definition idle_inv :: "controller \<Rightarrow> bool" where
  "idle_inv s \<longleftrightarrow> (\<not> scrolling s \<longrightarrow> animationFrameId s = None \<and> \<not> moving s)"

subsection \<open>Kinds of events, and what the session shares with its surroundings\<close>

fun is_press :: "event \<Rightarrow> bool" where
  "is_press (MouseDown e) = True"
| "is_press ev = False"

fun is_middle_press :: "event \<Rightarrow> bool" where
  "is_middle_press (MouseDown e) = middleButton e"
| "is_middle_press ev = False"

fun is_release :: "event \<Rightarrow> bool" where
  "is_release MouseUp = True"
| "is_release ev = False"

fun is_disposal :: "event \<Rightarrow> bool" where
  "is_disposal Dispose = True"
| "is_disposal ev = False"

text \<open>
  What a session changes outside the controller: the editor's two scroll offsets, the body's
  direction attribute and class, and whether the dot is shown.
\<close>

definition indicator_visible :: "controller \<Rightarrow> bool" where
  "indicator_visible s = (case dot s of Some d \<Rightarrow> \<not> hidden d | None \<Rightarrow> False)"

definition shared_state :: "controller \<Rightarrow> number \<times> number \<times> string option \<times> bool \<times> bool" where
  "shared_state s =
     (editor_scrollTop s, editor_scrollLeft s, data_scroll_direction s, body_class s,
      indicator_visible s)"

subsection \<open>When the controller is scrolling\<close>

text \<open>
  The condition of C3 in the spec's words: a press of the middle button has occurred more
  recently than any release that triggered a stop and than any disposal. A release triggers
  a stop when it is delivered while \<open>moving\<close> is set. The flag \<open>b\<close> says whether the
  condition holds of the events before.
\<close>

definition stop_triggering_up :: "controller \<Rightarrow> event \<Rightarrow> bool" where
  "stop_triggering_up s ev \<longleftrightarrow> is_release ev \<and> moving s \<and> \<not> disposed s"

fun middle_down_most_recent :: "bool \<Rightarrow> event list \<Rightarrow> controller \<Rightarrow> bool" where
  "middle_down_most_recent b [] s = b"
| "middle_down_most_recent b (ev # evs) s =
     middle_down_most_recent
       (if is_middle_press ev then True
        else if stop_triggering_up s ev \<or> is_disposal ev then False
        else b)
       evs (deliver ev s)"

text \<open>
  The condition as the source has it: a press of the middle button starts a session when it
  is delivered while idle, and a session is stopped by a press of any button delivered while
  scrolling, by a release that triggers a stop, and by disposal.
\<close>

definition starts_session :: "controller \<Rightarrow> event \<Rightarrow> bool" where
  "starts_session s ev \<longleftrightarrow> is_middle_press ev \<and> \<not> scrolling s \<and> \<not> disposed s"

definition stops_session :: "controller \<Rightarrow> event \<Rightarrow> bool" where
  "stops_session s ev \<longleftrightarrow>
     (is_press ev \<and> scrolling s \<and> \<not> disposed s) \<or> stop_triggering_up s ev \<or> is_disposal ev"

fun start_most_recent :: "bool \<Rightarrow> event list \<Rightarrow> controller \<Rightarrow> bool" where
  "start_most_recent b [] s = b"
| "start_most_recent b (ev # evs) s =
     start_most_recent
       (if starts_session s ev then True
        else if stops_session s ev then False
        else b)
       evs (deliver ev s)"

section \<open>Properties\<close>

subsection \<open>The frame tick\<close>

lemmas env_defs = getScrollTop_def getScrollLeft_def setScrollTop_def setScrollLeft_def
  requestAnimationFrame_def cancelAnimationFrame_def stopPropagation_def

lemma scrollPane_present:
  assumes "currentX s = Some cx" "currentY s = Some cy" "this_x s = Some ax" "this_y s = Some ay"
  shows "scrollPane s =
    s\<lparr>moving := (moving s \<or> direction_of (move (cy - ay)) (move (cx - ax)) \<noteq> ''''),
      data_scroll_direction := Some (direction_of (move (cy - ay)) (move (cx - ax))),
      editor_scrollTop := editor_scrollTop s + move (cy - ay),
      editor_scrollLeft := editor_scrollLeft s + move (cx - ax),
      frame_callbacks := frame_callbacks s @ [next_handle s],
      next_handle := next_handle s + 1,
      animationFrameId := Some (next_handle s)\<rparr>"
  using assms by (simp add: scrollPane_def env_defs Let_def)

lemma scrollPane_absent:
  "currentX s = None \<or> currentY s = None \<or> this_x s = None \<or> this_y s = None \<Longrightarrow>
   scrollPane s = s"
  by (simp add: scrollPane_def)

lemma session_at_eq:
  "session_at px py =
     \<lparr> moving = False, scrolling = True,
       currentX = Some px, currentY = Some py, this_x = Some 100, this_y = Some 100,
       animationFrameId = Some 1,
       dot = Some \<lparr>style_left = Some 100, style_top = Some 100, hidden = False\<rparr>,
       editor_scrollTop = 40, editor_scrollLeft = 10,
       data_scroll_direction = Some '''', body_class = True,
       mousemove_listener = True, frame_callbacks = [1], next_handle = 2,
       stopPropagation_calls = 1, disposed = False \<rparr>"
  by (simp add: session_at_def middle_press_def pointer_at_def initial_def windowMouseDown_def
      createDot_def startScroll_def scrollPane_def setCurrent_def env_defs Let_def
      move_def direction_of_def threshold_def)

text \<open>
  C1. A frame tick with anchor and current position set scrolls vertically by
  \<open>round ((diffY - 5) / 2)\<close> when \<open>diffY = currentY - y\<close> is above 5, by
  \<open>round ((diffY + 5) / 2)\<close> when it is below \<open>-5\<close>, and by 0 otherwise, and horizontally
  by the same formula on \<open>diffX = currentX - x\<close>; each step is added to the offset that the
  editor reports at the start of the tick.
\<close>

theorem scrollPane_scroll_step:
  assumes "currentX s = Some cx" and "currentY s = Some cy"
    and "this_x s = Some ax" and "this_y s = Some ay"
  shows "editor_scrollTop (scrollPane s) =
           getScrollTop s +
           (if cy - ay > 5 then Math_round ((cy - ay - 5) / 2)
            else if cy - ay < - 5 then Math_round ((cy - ay + 5) / 2)
            else 0) \<and>
         editor_scrollLeft (scrollPane s) =
           getScrollLeft s +
           (if cx - ax > 5 then Math_round ((cx - ax - 5) / 2)
            else if cx - ax < - 5 then Math_round ((cx - ax + 5) / 2)
            else 0)"
  by (simp add: scrollPane_present [OF assms] move_def threshold_def speed_def env_defs)

theorem scrollPane_scroll_step_witness:
  "currentX (session_at 80 131) = Some 80 \<and> currentY (session_at 80 131) = Some 131 \<and>
   this_x (session_at 80 131) = Some 100 \<and> this_y (session_at 80 131) = Some 100 \<and>
   editor_scrollTop (scrollPane (session_at 80 131)) = 40 + 13 \<and>
   editor_scrollLeft (scrollPane (session_at 80 131)) = 10 + (- 7)"
  using scrollPane_scroll_step [of "session_at 80 131" 80 131 100 100]
  by (simp add: session_at_eq Math_round_def env_defs)

text \<open>
  C8. At a frame tick the direction code is \<open>n\<close> if \<open>moveY < 0\<close>, \<open>s\<close> if \<open>moveY > 0\<close>, else
  empty, followed by \<open>w\<close> if \<open>moveX < 0\<close>, \<open>e\<close> if \<open>moveX > 0\<close>, else empty: one of nine
  strings. The tick sets \<open>moving\<close> exactly when the code is not empty, and leaves it as it
  was otherwise.
\<close>

theorem scrollPane_direction:
  assumes "currentX s = Some cx" and "currentY s = Some cy"
    and "this_x s = Some ax" and "this_y s = Some ay"
    and "moveY = move (cy - ay)" and "moveX = move (cx - ax)"
    and "code = (if moveY < 0 then ''n'' else if moveY > 0 then ''s'' else '''') @
                (if moveX < 0 then ''w'' else if moveX > 0 then ''e'' else '''')"
  shows "data_scroll_direction (scrollPane s) = Some code \<and>
         code \<in> {'''', ''n'', ''s'', ''w'', ''e'', ''nw'', ''ne'', ''sw'', ''se''} \<and>
         (code \<noteq> '''' \<longrightarrow> moving (scrollPane s)) \<and>
         (code = '''' \<longrightarrow> moving (scrollPane s) = moving s)"
  using assms(5-7) by (simp add: scrollPane_present [OF assms(1-4)] direction_of_def)

theorem scrollPane_direction_witness:
  "data_scroll_direction (scrollPane (session_at 80 131)) = Some ''sw'' \<and>
   moving (scrollPane (session_at 80 131)) \<and> \<not> moving (session_at 80 131) \<and>
   data_scroll_direction (scrollPane (session_at 103 98)) = Some '''' \<and>
   \<not> moving (scrollPane (session_at 103 98))"
  using scrollPane_direction [of "session_at 80 131" 80 131 100 100 13 "- 7" "''sw''"]
    scrollPane_direction [of "session_at 103 98" 103 98 100 100 0 0 "''''"]
  by (simp add: session_at_eq move_def Math_round_def threshold_def speed_def)

text \<open>
  C9. When the current position is the anchor, a frame tick computes \<open>moveX = 0\<close>,
  \<open>moveY = 0\<close> and the empty direction code, and the scroll offsets stay as they were.
\<close>

theorem scrollPane_at_anchor:
  assumes "currentX s = Some ax" and "currentY s = Some ay"
    and "this_x s = Some ax" and "this_y s = Some ay"
  shows "move (the (currentX s) - the (this_x s)) = 0 \<and>
         move (the (currentY s) - the (this_y s)) = 0 \<and>
         data_scroll_direction (scrollPane s) = Some '''' \<and>
         editor_scrollTop (scrollPane s) = editor_scrollTop s \<and>
         editor_scrollLeft (scrollPane s) = editor_scrollLeft s"
  by (simp add: scrollPane_present [OF assms] assms move_def threshold_def direction_of_def)

theorem scrollPane_at_anchor_witness:
  "currentX (session_at 100 100) = Some 100 \<and> this_x (session_at 100 100) = Some 100 \<and>
   currentY (session_at 100 100) = Some 100 \<and> this_y (session_at 100 100) = Some 100 \<and>
   data_scroll_direction (scrollPane (session_at 100 100)) = Some '''' \<and>
   editor_scrollTop (scrollPane (session_at 100 100)) = 40 \<and>
   editor_scrollLeft (scrollPane (session_at 100 100)) = 10"
  using scrollPane_at_anchor [of "session_at 100 100" 100 100]
  by (simp add: session_at_eq)

subsection \<open>The invariant\<close>

lemma session_inv_initial: "session_inv (initial t l)"
  by (simp add: session_inv_def initial_def)

lemma session_inv_stopScroll: "session_inv s \<Longrightarrow> session_inv (stopScroll s)"
  by (auto simp: session_inv_def stopScroll_def env_defs Let_def split: option.splits if_splits)

lemma scrolling_stopScroll: "\<not> scrolling (stopScroll s)"
  by (simp add: stopScroll_def env_defs Let_def split: option.splits)

lemma scrolling_scrollPane: "scrolling (scrollPane s) = scrolling s"
  by (simp add: scrollPane_def env_defs Let_def)

lemma session_inv_scrollPane:
  "session_inv s \<Longrightarrow> scrolling s \<Longrightarrow> session_inv (scrollPane (s\<lparr>frame_callbacks := []\<rparr>))"
  by (auto simp: session_inv_def scrollPane_def env_defs Let_def split: option.splits if_splits)

lemma session_inv_startScroll:
  "session_inv s \<Longrightarrow> \<not> disposed s \<Longrightarrow> session_inv (startScroll e s)"
  by (auto simp: session_inv_def startScroll_def stopScroll_def scrollPane_def env_defs Let_def
      split: option.splits if_splits)

lemma session_inv_deliver: "session_inv s \<Longrightarrow> session_inv (deliver ev s)"
proof (cases ev)
  case (MouseDown e)
  assume i: "session_inv s"
  show ?thesis
  proof (cases "disposed s")
    case True
    with i MouseDown show ?thesis by simp
  next
    case False
    have c: "session_inv (createDot s)" if "\<not> scrolling s"
      using i that by (auto simp: session_inv_def createDot_def split: option.splits if_splits)
    have p: "session_inv (stopPropagation t)" if "session_inv t" for t
      using that by (auto simp: session_inv_def stopPropagation_def split: option.splits if_splits)
    show ?thesis
      using i False MouseDown c p
      by (simp add: windowMouseDown_def Let_def session_inv_stopScroll session_inv_startScroll
            stopPropagation_def createDot_def)
  qed
next
  case MouseUp
  assume "session_inv s"
  then show ?thesis using MouseUp by (simp add: windowMouseUp_def session_inv_stopScroll)
next
  case (MouseMove e)
  assume "session_inv s"
  then show ?thesis using MouseMove
    by (auto simp: session_inv_def setCurrent_def split: if_splits option.splits)
next
  case (AnimationFrame h)
  assume i: "session_inv s"
  show ?thesis
  proof (cases "h \<in> set (frame_callbacks s)")
    case True
    with i have sc: "scrolling s" and fc: "frame_callbacks s = [h]"
      by (auto simp: session_inv_def split: if_splits option.splits)
    from session_inv_scrollPane [OF i sc] True fc AnimationFrame show ?thesis by simp
  next
    case False
    with i AnimationFrame show ?thesis by simp
  qed
next
  case Dispose
  assume i: "session_inv s"
  have "session_inv ((stopScroll s)\<lparr>dot := None, disposed := True\<rparr>)"
    using session_inv_stopScroll [OF i] scrolling_stopScroll [of s]
    by (simp add: session_inv_def)
  with i Dispose show ?thesis by (simp add: dispose_def)
qed

lemma session_inv_run: "session_inv s \<Longrightarrow> session_inv (run evs s)"
  by (induction evs arbitrary: s) (simp_all add: session_inv_deliver)

lemma session_inv_reachable: "session_inv (run evs (initial t l))"
  by (rule session_inv_run [OF session_inv_initial])

subsection \<open>Rounding at the edge of the deadzone, and the next frame\<close>

text \<open>
  C4. With anchor \<open>y = 100\<close>: at current \<open>y = 106\<close> the tick computes
  \<open>moveY = round ((6 - 5) / 2) = round 0.5 = 1\<close>, the scroll offset grows by 1 and the
  direction code holds \<open>s\<close>. At current \<open>y = 94\<close> it computes
  \<open>moveY = round ((- 6 + 5) / 2) = round (- 0.5)\<close>, which is 0 (a tie is rounded up): the
  scroll offset stays and the direction code holds no \<open>n\<close>.
\<close>

theorem threshold_edge:
  assumes "this_y s = Some 100" and "currentY s = Some cy"
    and "this_x s = Some ax" and "currentX s = Some cx"
  shows "(cy = 106 \<longrightarrow>
            move (cy - 100) = Math_round ((6 - 5) / 2) \<and> Math_round ((6 - 5) / 2) = 1 \<and>
            editor_scrollTop (scrollPane s) = editor_scrollTop s + 1 \<and>
            CHR ''s'' \<in> set (the (data_scroll_direction (scrollPane s)))) \<and>
         (cy = 94 \<longrightarrow>
            move (cy - 100) = Math_round ((- 6 + 5) / 2) \<and> Math_round ((- 6 + 5) / 2) = 0 \<and>
            editor_scrollTop (scrollPane s) = editor_scrollTop s \<and>
            CHR ''n'' \<notin> set (the (data_scroll_direction (scrollPane s))))"
  by (simp add: scrollPane_present [OF assms(4,2,3,1)] move_def direction_of_def
      Math_round_def threshold_def speed_def)

theorem threshold_edge_witness:
  "this_y (session_at 100 106) = Some 100 \<and> currentY (session_at 100 106) = Some 106 \<and>
   editor_scrollTop (scrollPane (session_at 100 106)) = 41 \<and>
   data_scroll_direction (scrollPane (session_at 100 106)) = Some ''s'' \<and>
   this_y (session_at 100 94) = Some 100 \<and> currentY (session_at 100 94) = Some 94 \<and>
   editor_scrollTop (scrollPane (session_at 100 94)) = 40 \<and>
   CHR ''n'' \<notin> set (the (data_scroll_direction (scrollPane (session_at 100 94))))"
  using threshold_edge [of "session_at 100 106" 106 100 100]
    threshold_edge [of "session_at 100 94" 94 100 100]
  by (simp add: session_at_eq scrollPane_def env_defs Let_def move_def direction_of_def
      Math_round_def threshold_def speed_def)

text \<open>
  C4 as first stated does not hold: after a press at \<open>y = 100\<close> and a move to \<open>y = 94\<close>, the
  first frame tick computes \<open>moveY = 0\<close> and an empty direction code.
\<close>

theorem threshold_edge_not_north_counterexample:
  "move (94 - 100) = 0 \<and>
   data_scroll_direction (deliver (AnimationFrame 1) (session_at 100 94)) = Some '''' \<and>
   CHR ''n'' \<notin> set (the (data_scroll_direction (deliver (AnimationFrame 1) (session_at 100 94))))"
  by (simp add: session_at_eq scrollPane_def env_defs Let_def move_def direction_of_def
      Math_round_def threshold_def speed_def)






subsection \<open>Stopping\<close>

lemma stopScroll_eq:
  "stopScroll s =
     s\<lparr>scrolling := False, moving := False, mousemove_listener := False,
       frame_callbacks :=
         (case animationFrameId s of Some h \<Rightarrow> removeAll h (frame_callbacks s)
          | None \<Rightarrow> frame_callbacks s),
       animationFrameId := None,
       dot := map_option (\<lambda>d. d\<lparr>hidden := True\<rparr>) (dot s),
       data_scroll_direction := None, body_class := False\<rparr>"
  by (simp add: stopScroll_def env_defs Let_def split: option.splits)

lemma scrolling_startScroll: "scrolling (startScroll e s)"
  by (simp add: startScroll_def Let_def scrolling_scrollPane split: option.splits)

lemma stopScroll_idle: "session_inv s \<Longrightarrow> \<not> scrolling s \<Longrightarrow> stopScroll s = s"
  by (cases "dot s") (simp_all add: stopScroll_eq session_inv_def)

lemma twice_pressed_eq:
  "run [MouseDown middle_press, MouseDown middle_press] (initial 40 10) =
     \<lparr> moving = False, scrolling = False,
       currentX = Some 100, currentY = Some 100, this_x = Some 100, this_y = Some 100,
       animationFrameId = None,
       dot = Some \<lparr>style_left = Some 100, style_top = Some 100, hidden = True\<rparr>,
       editor_scrollTop = 40, editor_scrollLeft = 10,
       data_scroll_direction = None, body_class = False,
       mousemove_listener = False, frame_callbacks = [], next_handle = 2,
       stopPropagation_calls = 2, disposed = False \<rparr>"
proof -
  have "run [MouseDown middle_press] (initial 40 10) = session_at 100 100"
    by (simp add: session_at_eq middle_press_def initial_def windowMouseDown_def
      createDot_def startScroll_def scrollPane_def env_defs Let_def
      move_def direction_of_def threshold_def)
  then have "run [MouseDown middle_press, MouseDown middle_press] (initial 40 10) =
    deliver (MouseDown middle_press) (session_at 100 100)"
    by simp
  also have "\<dots> = windowMouseDown middle_press (session_at 100 100)"
    by (simp add: session_at_eq)
  finally show ?thesis
    by (simp add: session_at_eq middle_press_def windowMouseDown_def stopScroll_eq stopPropagation_def)
qed

text \<open>
  C6. Calling \<open>stopScroll\<close> twice gives the state that calling it once gives, in every
  state; and in every idle state that events lead to, \<open>stopScroll\<close> changes nothing. The
  function has no failing path.
\<close>

theorem stopScroll_idempotent:
  "stopScroll (stopScroll s) = stopScroll s \<and>
   (\<not> scrolling (run evs (initial top0 left0)) \<longrightarrow>
      stopScroll (run evs (initial top0 left0)) = run evs (initial top0 left0))"
proof -
  have "stopScroll (stopScroll s) = stopScroll s"
    by (cases "dot s") (simp_all add: stopScroll_eq)
  moreover have "stopScroll t = t" if "\<not> scrolling t" and "t = run evs (initial top0 left0)" for t
    using that session_inv_reachable [of evs top0 left0] by (simp add: stopScroll_idle)
  ultimately show ?thesis by blast
qed

theorem stopScroll_idempotent_witness:
  "scrolling (session_at 80 131) \<and>
   stopScroll (stopScroll (session_at 80 131)) = stopScroll (session_at 80 131) \<and>
   \<not> scrolling (run [MouseDown middle_press, MouseDown middle_press] (initial 40 10)) \<and>
   stopScroll (run [MouseDown middle_press, MouseDown middle_press] (initial 40 10)) =
     run [MouseDown middle_press, MouseDown middle_press] (initial 40 10)"
  using stopScroll_idempotent [of "session_at 80 131" "[MouseDown middle_press, MouseDown middle_press]" 40 10]
  by (simp add: session_at_eq twice_pressed_eq stopScroll_eq del: run.simps)

text \<open>
  C10. In every state that events lead to, \<open>scrolling = false\<close> implies
  \<open>animationFrameId = null\<close> and \<open>moving = false\<close>, and the state after \<open>startScroll\<close>,
  \<open>stopScroll\<close>, \<open>windowMouseDown\<close>, \<open>windowMouseUp\<close> or the run of a pending frame
  callback satisfies it again.
\<close>

theorem idle_inv_preserved:
  assumes "s = run evs (initial top0 left0)"
  shows "idle_inv s \<and> idle_inv (startScroll e s) \<and> idle_inv (stopScroll s) \<and>
         idle_inv (windowMouseDown e s) \<and> idle_inv (windowMouseUp s) \<and>
         (h \<in> set (frame_callbacks s) \<longrightarrow> idle_inv (deliver (AnimationFrame h) s))"
proof -
  have i: "session_inv s"
    unfolding assms by (rule session_inv_reachable)
  have weaker: "idle_inv t" if "session_inv t" for t
    using that by (auto simp: idle_inv_def session_inv_def split: if_splits)
  have "idle_inv s"
    using i by (rule weaker)
  moreover have "idle_inv (startScroll e s)"
    by (simp add: idle_inv_def scrolling_startScroll)
  moreover have "idle_inv (stopScroll s)"
    by (simp add: idle_inv_def stopScroll_eq)
  moreover have "idle_inv (windowMouseDown e s)"
    using \<open>idle_inv s\<close>
    by (simp add: idle_inv_def windowMouseDown_def Let_def stopScroll_eq scrolling_startScroll
        createDot_def)
  moreover have "idle_inv (windowMouseUp s)"
    using \<open>idle_inv s\<close> by (simp add: idle_inv_def windowMouseUp_def stopScroll_eq)
  moreover have "idle_inv (deliver (AnimationFrame h) s)"
    by (rule weaker [OF session_inv_deliver [OF i]])
  ultimately show ?thesis by blast
qed

theorem idle_inv_preserved_witness:
  "idle_inv (session_at 80 131) \<and> 1 \<in> set (frame_callbacks (session_at 80 131)) \<and>
   idle_inv (deliver (AnimationFrame 1) (session_at 80 131)) \<and>
   idle_inv (stopScroll (session_at 80 131)) \<and> \<not> scrolling (stopScroll (session_at 80 131)) \<and>
   animationFrameId (stopScroll (session_at 80 131)) = None \<and>
   \<not> moving (stopScroll (session_at 80 131))"
  using idle_inv_preserved [OF session_at_def, of 80 131 middle_press 1]
  by (simp add: session_at_eq stopScroll_eq)

lemma no_press_deliver:
  assumes "session_inv t" and "\<not> scrolling t" and "\<not> is_press ev"
  shows "\<not> scrolling (deliver ev t) \<and> shared_state (deliver ev t) = shared_state t"
proof (cases ev)
  case (MouseDown e)
  with assms(3) show ?thesis by simp
next
  case MouseUp
  with assms show ?thesis by (simp add: windowMouseUp_def session_inv_def)
next
  case (MouseMove e)
  with assms show ?thesis by (simp add: session_inv_def)
next
  case (AnimationFrame h)
  with assms show ?thesis by (simp add: session_inv_def)
next
  case Dispose
  with assms show ?thesis
    by (cases "dot t")
      (simp_all add: dispose_def stopScroll_eq session_inv_def shared_state_def
        indicator_visible_def)
qed

lemma no_press_run:
  "session_inv t \<Longrightarrow> \<not> scrolling t \<Longrightarrow> list_all (\<lambda>ev. \<not> is_press ev) evs \<Longrightarrow>
   shared_state (run evs t) = shared_state t"
proof (induction evs arbitrary: t)
  case Nil
  then show ?case by simp
next
  case (Cons ev evs)
  from Cons.prems have np: "\<not> is_press ev" and rest: "list_all (\<lambda>ev. \<not> is_press ev) evs"
    by simp_all
  from no_press_deliver [OF Cons.prems(1,2) np]
  have idle: "\<not> scrolling (deliver ev t)" and same: "shared_state (deliver ev t) = shared_state t"
    by simp_all
  from Cons.IH [OF session_inv_deliver [OF Cons.prems(1)] idle rest] same
  show ?case by simp
qed

lemma disposed_deliver:
  "session_inv t \<Longrightarrow> disposed t \<Longrightarrow> deliver ev t = t"
  by (cases ev) (auto simp: session_inv_def dispose_def split: if_splits)

lemma disposed_run: "session_inv t \<Longrightarrow> disposed t \<Longrightarrow> run evs t = t"
  by (induction evs) (simp_all add: disposed_deliver)

lemma disposed_dispose: "disposed (dispose s)"
  by (simp add: dispose_def)

lemma session_inv_dispose: "session_inv s \<Longrightarrow> session_inv (dispose s)"
  using session_inv_deliver [of s Dispose] by simp

text \<open>
  C5. After \<open>stopScroll\<close> returns (also when disposal calls it), no frame callback is pending
  and the move listener is removed; from then on no event but a new button press changes the
  scroll offsets, the direction attribute, the body class or the visibility of the dot, and
  after disposal no event changes anything. This rests on the cancellation alone:
  \<open>scrollPane\<close> does not look at the \<open>scrolling\<close> flag, and a call of it after
  \<open>stopScroll\<close> scrolls by the same step as a tick of the session.
\<close>

theorem nothing_after_stopScroll:
  assumes "s = run evs (initial top0 left0)"
  shows "frame_callbacks (stopScroll s) = [] \<and> animationFrameId (stopScroll s) = None \<and>
         \<not> mousemove_listener (stopScroll s) \<and>
         frame_callbacks (dispose s) = [] \<and> \<not> mousemove_listener (dispose s) \<and>
         (list_all (\<lambda>ev. \<not> is_press ev) later \<longrightarrow>
            shared_state (run later (stopScroll s)) = shared_state (stopScroll s)) \<and>
         run later (dispose s) = dispose s \<and>
         (currentX s = Some cx \<and> currentY s = Some cy \<and> this_x s = Some ax \<and> this_y s = Some ay \<longrightarrow>
            editor_scrollTop (scrollPane (stopScroll s)) = editor_scrollTop s + move (cy - ay) \<and>
            editor_scrollLeft (scrollPane (stopScroll s)) = editor_scrollLeft s + move (cx - ax))"
proof -
  have i: "session_inv s"
    unfolding assms by (rule session_inv_reachable)
  have i': "session_inv (stopScroll s)"
    using i by (rule session_inv_stopScroll)
  have idle: "\<not> scrolling (stopScroll s)"
    by (rule scrolling_stopScroll)
  have d: "session_inv (dispose s)"
    using i by (rule session_inv_dispose)
  have "frame_callbacks (stopScroll s) = [] \<and> animationFrameId (stopScroll s) = None \<and>
        \<not> mousemove_listener (stopScroll s)"
    using i' idle by (simp add: session_inv_def)
  moreover have "frame_callbacks (dispose s) = [] \<and> \<not> mousemove_listener (dispose s)"
    using d disposed_dispose [of s] by (auto simp: session_inv_def split: if_splits)
  moreover have "shared_state (run later (stopScroll s)) = shared_state (stopScroll s)"
    if "list_all (\<lambda>ev. \<not> is_press ev) later"
    using i' idle that by (rule no_press_run)
  moreover have "run later (dispose s) = dispose s"
    using d disposed_dispose by (rule disposed_run)
  moreover have "editor_scrollTop (scrollPane (stopScroll s)) = editor_scrollTop s + move (cy - ay) \<and>
        editor_scrollLeft (scrollPane (stopScroll s)) = editor_scrollLeft s + move (cx - ax)"
    if "currentX s = Some cx \<and> currentY s = Some cy \<and> this_x s = Some ax \<and> this_y s = Some ay"
    using that by (simp add: scrollPane_def stopScroll_eq env_defs Let_def)
  ultimately show ?thesis by blast
qed

theorem nothing_after_stopScroll_witness:
  "frame_callbacks (session_at 100 131) = [1] \<and> mousemove_listener (session_at 100 131) \<and>
   frame_callbacks (stopScroll (session_at 100 131)) = [] \<and>
   \<not> mousemove_listener (stopScroll (session_at 100 131)) \<and>
   list_all (\<lambda>ev. \<not> is_press ev) [AnimationFrame 1, MouseMove (pointer_at 0 0), MouseUp] \<and>
   shared_state (run [AnimationFrame 1, MouseMove (pointer_at 0 0), MouseUp]
      (stopScroll (session_at 100 131))) = (40, 10, None, False, False) \<and>
   run [MouseDown middle_press, AnimationFrame 1] (dispose (session_at 100 131)) =
     dispose (session_at 100 131) \<and>
   currentY (session_at 100 131) = Some 131 \<and> this_y (session_at 100 131) = Some 100 \<and>
   editor_scrollTop (scrollPane (stopScroll (session_at 100 131))) = 40 + 13"
  using nothing_after_stopScroll [OF session_at_def, of 100 131
      "[AnimationFrame 1, MouseMove (pointer_at 0 0), MouseUp]" 100 131 100 100]
    nothing_after_stopScroll [OF session_at_def, of 100 131
      "[MouseDown middle_press, AnimationFrame 1]" 100 131 100 100]
  by (simp add: session_at_eq stopScroll_eq shared_state_def indicator_visible_def
      move_def Math_round_def threshold_def speed_def del: run.simps)

text \<open>
  C5 as first stated does not hold: \<open>scrollPane\<close> called after \<open>stopScroll\<close>, or after disposal,
  with the pointer 31 below the anchor moves the scroll offset from 40 to 53 and sets the
  direction attribute.
\<close>

theorem stray_frame_after_stop_counterexample:
  "editor_scrollTop (stopScroll (session_at 100 131)) = 40 \<and>
   data_scroll_direction (stopScroll (session_at 100 131)) = None \<and>
   editor_scrollTop (scrollPane (stopScroll (session_at 100 131))) = 53 \<and>
   data_scroll_direction (scrollPane (stopScroll (session_at 100 131))) = Some ''s'' \<and>
   editor_scrollTop (scrollPane (dispose (session_at 100 131))) = 53"
  by (simp add: session_at_eq stopScroll_eq dispose_def scrollPane_def env_defs Let_def
      move_def direction_of_def Math_round_def threshold_def speed_def)

subsection \<open>Starting and stopping along a sequence of events\<close>

lemma scrolling_deliver:
  assumes "session_inv s"
  shows "scrolling (deliver ev s) =
    (if starts_session s ev then True else if stops_session s ev then False else scrolling s)"
proof (cases ev)
  case (MouseDown e)
  then show ?thesis
    by (simp add: starts_session_def stops_session_def stop_triggering_up_def
        windowMouseDown_def Let_def scrolling_stopScroll scrolling_startScroll createDot_def)
next
  case MouseUp
  with assms show ?thesis
    by (auto simp: starts_session_def stops_session_def stop_triggering_up_def
        windowMouseUp_def scrolling_stopScroll session_inv_def split: if_splits)
next
  case (MouseMove e)
  then show ?thesis
    by (simp add: starts_session_def stops_session_def stop_triggering_up_def setCurrent_def)
next
  case (AnimationFrame h)
  then show ?thesis
    by (simp add: starts_session_def stops_session_def stop_triggering_up_def
        scrolling_scrollPane)
next
  case Dispose
  with assms show ?thesis
    by (auto simp: starts_session_def stops_session_def stop_triggering_up_def dispose_def
        scrolling_stopScroll session_inv_def split: if_splits)
qed

lemma scrolling_run:
  "session_inv s \<Longrightarrow> scrolling (run evs s) = start_most_recent (scrolling s) evs s"
proof (induction evs arbitrary: s)
  case Nil
  then show ?case by simp
next
  case (Cons ev evs)
  from Cons.IH [OF session_inv_deliver [OF Cons.prems]] scrolling_deliver [OF Cons.prems, of ev]
  show ?case by simp
qed

text \<open>
  C3. After every sequence of events from the initial state, the controller is scrolling if
  and only if a press of the middle button delivered while idle has occurred more recently
  than any press delivered while scrolling, any release that triggered a stop, and any
  disposal.
\<close>

theorem scrolling_iff_start_most_recent:
  "scrolling (run evs (initial top0 left0)) = start_most_recent False evs (initial top0 left0)"
  using scrolling_run [OF session_inv_initial, of evs top0 left0] by (simp add: initial_def)

theorem scrolling_iff_start_most_recent_witness:
  "scrolling (run [MouseDown middle_press, MouseUp] (initial 40 10)) \<and>
   start_most_recent False [MouseDown middle_press, MouseUp] (initial 40 10) \<and>
   \<not> scrolling (run [MouseDown middle_press, MouseDown middle_press] (initial 40 10)) \<and>
   \<not> start_most_recent False [MouseDown middle_press, MouseDown middle_press] (initial 40 10)"
proof -
  have "start_most_recent False [MouseDown middle_press, MouseUp] (initial 40 10)"
    by (simp add: starts_session_def stops_session_def stop_triggering_up_def initial_def
        middle_press_def windowMouseDown_def createDot_def startScroll_def scrollPane_def
        env_defs Let_def move_def direction_of_def threshold_def)
  with twice_pressed_eq
    scrolling_iff_start_most_recent [of "[MouseDown middle_press, MouseUp]" 40 10]
    scrolling_iff_start_most_recent [of "[MouseDown middle_press, MouseDown middle_press]" 40 10]
  show ?thesis by (simp del: run.simps start_most_recent.simps)
qed

text \<open>
  C3 as first stated does not hold: after two presses of the middle button, a press of the
  middle button is the most recent event, and the controller is idle.
\<close>

theorem second_press_stops_counterexample:
  "middle_down_most_recent False [MouseDown middle_press, MouseDown middle_press] (initial 40 10) \<and>
   \<not> scrolling (run [MouseDown middle_press, MouseDown middle_press] (initial 40 10))"
proof -
  have "middle_down_most_recent False [MouseDown middle_press, MouseDown middle_press]
      (initial 40 10)"
    by (simp add: middle_press_def)
  moreover have "\<not> scrolling (run [MouseDown middle_press, MouseDown middle_press] (initial 40 10))"
    by (simp add: twice_pressed_eq del: run.simps)
  ultimately show ?thesis by (rule conjI)
qed

lemma pressed_eq: "deliver (MouseDown middle_press) (initial 40 10) = session_at 100 100"
  by (simp add: session_at_eq middle_press_def initial_def windowMouseDown_def
      createDot_def startScroll_def scrollPane_def env_defs Let_def
      move_def direction_of_def threshold_def)

lemma moved_session_eq:
  "moved_session =
     \<lparr> moving = True, scrolling = True,
       currentX = Some 100, currentY = Some 131, this_x = Some 100, this_y = Some 100,
       animationFrameId = Some 2,
       dot = Some \<lparr>style_left = Some 100, style_top = Some 100, hidden = False\<rparr>,
       editor_scrollTop = 53, editor_scrollLeft = 10,
       data_scroll_direction = Some ''s'', body_class = True,
       mousemove_listener = True, frame_callbacks = [2], next_handle = 3,
       stopPropagation_calls = 1, disposed = False \<rparr>"
proof -
  have "moved_session = deliver (AnimationFrame 1) (session_at 100 131)"
    by (simp add: moved_session_def session_at_def)
  then show ?thesis
    by (simp add: session_at_eq scrollPane_def env_defs Let_def move_def direction_of_def
        Math_round_def threshold_def speed_def)
qed

text \<open>
  C2. While scrolling, a release stops the session if and only if \<open>moving\<close> is set. It
  then does what \<open>stopScroll\<close> does: no frame callback stays pending, the move listener is
  removed, the direction attribute and the body class are gone and the dot is hidden, with
  the scroll offsets as they were. A release while \<open>moving\<close> is not set changes nothing.
  The session ends only at a release while \<open>moving\<close> is set, at a press of a button, or at
  the disposal of the controller, and \<open>moving\<close> becomes set only at a frame tick that
  computes a direction code that is not empty.
\<close>

theorem release_stops_iff_moving:
  assumes "s = run evs (initial top0 left0)" and "scrolling s"
  shows "deliver MouseUp s = windowMouseUp s \<and>
         (\<not> scrolling (windowMouseUp s) \<longleftrightarrow> moving s) \<and>
         (moving s \<longrightarrow>
            windowMouseUp s = stopScroll s \<and> \<not> moving (windowMouseUp s) \<and>
            animationFrameId (windowMouseUp s) = None \<and>
            frame_callbacks (windowMouseUp s) = [] \<and>
            \<not> mousemove_listener (windowMouseUp s) \<and>
            shared_state (windowMouseUp s) =
              (editor_scrollTop s, editor_scrollLeft s, None, False, False)) \<and>
         (\<not> moving s \<longrightarrow> windowMouseUp s = s) \<and>
         (\<not> scrolling (deliver ev s) \<longrightarrow>
            ((is_release ev \<and> moving s) \<or> is_press ev \<or> is_disposal ev) \<and>
            frame_callbacks (deliver ev s) = [] \<and> \<not> mousemove_listener (deliver ev s)) \<and>
         (\<not> moving s \<and> moving (deliver ev s) \<longrightarrow>
            (\<exists>h. ev = AnimationFrame h) \<and> data_scroll_direction (deliver ev s) \<noteq> Some '''')"
proof -
  have i: "session_inv s"
    unfolding assms(1) by (rule session_inv_reachable)
  from i assms(2) have live: "\<not> disposed s"
    by (simp add: session_inv_def)
  then have del: "deliver MouseUp s = windowMouseUp s"
    by simp
  have up: "(\<not> scrolling (windowMouseUp s) \<longleftrightarrow> moving s) \<and> (\<not> moving s \<longrightarrow> windowMouseUp s = s)"
    using assms(2) by (simp add: windowMouseUp_def scrolling_stopScroll)
  have stopped: "windowMouseUp s = stopScroll s \<and> \<not> moving (windowMouseUp s) \<and>
      animationFrameId (windowMouseUp s) = None \<and> frame_callbacks (windowMouseUp s) = [] \<and>
      \<not> mousemove_listener (windowMouseUp s) \<and>
      shared_state (windowMouseUp s) =
        (editor_scrollTop s, editor_scrollLeft s, None, False, False)"
    if m: "moving s"
  proof -
    from m have eq: "windowMouseUp s = stopScroll s"
      by (simp add: windowMouseUp_def)
    have idle: "\<not> moving (stopScroll s) \<and> animationFrameId (stopScroll s) = None \<and>
        frame_callbacks (stopScroll s) = [] \<and> \<not> mousemove_listener (stopScroll s) \<and>
        \<not> body_class (stopScroll s) \<and> data_scroll_direction (stopScroll s) = None \<and>
        \<not> indicator_visible (stopScroll s)"
      using session_inv_stopScroll [OF i] scrolling_stopScroll [of s]
      by (auto simp: session_inv_def indicator_visible_def split: option.splits)
    have "editor_scrollTop (stopScroll s) = editor_scrollTop s"
      and "editor_scrollLeft (stopScroll s) = editor_scrollLeft s"
      by (simp_all add: stopScroll_eq)
    with eq idle show ?thesis
      by (simp add: shared_state_def)
  qed
  have ends: "((is_release ev \<and> moving s) \<or> is_press ev \<or> is_disposal ev) \<and>
      frame_callbacks (deliver ev s) = [] \<and> \<not> mousemove_listener (deliver ev s)"
    if e: "\<not> scrolling (deliver ev s)"
  proof -
    have "(is_release ev \<and> moving s) \<or> is_press ev \<or> is_disposal ev"
      using e assms(2) up
      by (cases ev) (auto simp: scrolling_scrollPane setCurrent_def split: if_splits)
    moreover have "frame_callbacks (deliver ev s) = [] \<and> \<not> mousemove_listener (deliver ev s)"
      using session_inv_deliver [OF i, of ev] e by (simp add: session_inv_def)
    ultimately show ?thesis by (rule conjI)
  qed
  have moved: "(\<exists>h. ev = AnimationFrame h) \<and> data_scroll_direction (deliver ev s) \<noteq> Some ''''"
    if "\<not> moving s" and "moving (deliver ev s)"
  proof (cases ev)
    case (MouseDown e)
    with that assms(2) show ?thesis
      by (simp add: windowMouseDown_def stopScroll_eq split: if_splits)
  next
    case MouseUp
    with that show ?thesis by (simp add: windowMouseUp_def split: if_splits)
  next
    case (MouseMove e)
    with that show ?thesis by (simp add: setCurrent_def split: if_splits)
  next
    case (AnimationFrame h)
    with that show ?thesis
      by (auto simp: scrollPane_def env_defs Let_def split: if_splits)
  next
    case Dispose
    with that show ?thesis by (simp add: dispose_def stopScroll_eq split: if_splits)
  qed
  from del up stopped ends moved show ?thesis by blast
qed

theorem release_stops_iff_moving_witness:
  "scrolling (session_at 100 131) \<and> \<not> moving (session_at 100 131) \<and>
   deliver MouseUp (session_at 100 131) = session_at 100 131 \<and>
   scrolling moved_session \<and> moving moved_session \<and>
   frame_callbacks moved_session = [2] \<and> mousemove_listener moved_session \<and>
   \<not> scrolling (deliver MouseUp moved_session) \<and>
   deliver MouseUp moved_session = stopScroll moved_session \<and>
   frame_callbacks (deliver MouseUp moved_session) = [] \<and>
   \<not> mousemove_listener (deliver MouseUp moved_session) \<and>
   shared_state (deliver MouseUp moved_session) = (53, 10, None, False, False)"
proof -
  have a: "scrolling (session_at 100 131)" "\<not> moving (session_at 100 131)"
    by (simp_all add: session_at_eq)
  have b: "scrolling moved_session" "moving moved_session"
    "frame_callbacks moved_session = [2]" "mousemove_listener moved_session"
    "editor_scrollTop moved_session = 53" "editor_scrollLeft moved_session = 10"
    by (simp_all add: moved_session_eq)
  from release_stops_iff_moving [OF session_at_def a(1), of MouseUp] a(2)
  have ignored: "deliver MouseUp (session_at 100 131) = session_at 100 131"
    by (simp del: deliver.simps)
  from release_stops_iff_moving [OF moved_session_def b(1), of MouseUp] b(2,5,6)
  have stopped: "\<not> scrolling (deliver MouseUp moved_session) \<and>
      deliver MouseUp moved_session = stopScroll moved_session \<and>
      frame_callbacks (deliver MouseUp moved_session) = [] \<and>
      \<not> mousemove_listener (deliver MouseUp moved_session) \<and>
      shared_state (deliver MouseUp moved_session) = (53, 10, None, False, False)"
    by (auto simp del: deliver.simps)
  from a b(1-4) ignored stopped show ?thesis
    by blast
qed

text \<open>
  C2 as first stated does not hold: after a press of the middle button and a release, the
  controller is scrolling with \<open>moving\<close> not set, and disposal ends the session with no
  movement, no later release and no press of a button.
\<close>

theorem session_ends_at_disposal_counterexample:
  "scrolling (run [MouseDown middle_press, MouseUp] (initial 40 10)) \<and>
   \<not> moving (run [MouseDown middle_press, MouseUp] (initial 40 10)) \<and>
   \<not> scrolling (run [MouseDown middle_press, MouseUp, Dispose] (initial 40 10))"
proof -
  have up: "deliver MouseUp (session_at 100 100) = session_at 100 100"
    by (simp add: session_at_eq windowMouseUp_def)
  have gone: "\<not> scrolling (deliver Dispose (session_at 100 100))"
    by (simp add: session_at_eq dispose_def stopScroll_eq)
  have live: "scrolling (session_at 100 100) \<and> \<not> moving (session_at 100 100)"
    by (simp add: session_at_eq)
  from gone live show ?thesis
    by (simp add: pressed_eq up del: deliver.simps)
qed

end
